theory Spec2Isabelle
  imports Complex_Main
begin

section \<open>Data model\<close>

text \<open>
  A multi-index is one column of the integer array \<open>indices\<close> of shape
  \<open>(nvars, nindices)\<close>; an index array is the list of its columns, every column of
  length \<open>nvars\<close>. Coefficients are the entries of a float column vector, read as reals.
\<close>

type_synonym index = "int list"

text \<open>The exceptions the modelled functions raise.\<close>

datatype error =
    Exception string
  | AssertionError
  | TypeError
  | NameError
  | IndexError
  | ValueError
  | KeyError

section \<open>Index helpers imported from the package\<close>

text \<open>
  Modelled from the spec: \<open>get_forward_neighbor\<close> is imported from the package and
  is not part of this file; the spec gives it as \<open>forward = idx + e_d\<close>
  (increment coordinate \<open>d\<close> by one).
\<close>

definition get_forward_neighbor :: "index \<Rightarrow> nat \<Rightarrow> index" where
  "get_forward_neighbor index dd = index[dd := index ! dd + 1]"

text \<open>
  Modelled from the spec: \<open>get_backward_neighbor\<close> is imported from the package and
  is not part of this file; the spec gives it as \<open>backward_k = forward - e_k\<close>.
  \<open>expand_basis\<close> calls it with an array of positions (an element of the tuple
  returned by \<open>np.nonzero\<close>), so the model takes the list of positions and decrements
  the coordinate at each of them.
\<close>

definition get_backward_neighbor :: "index \<Rightarrow> nat list \<Rightarrow> index" where
  "get_backward_neighbor index kk = fold (\<lambda>k n. n[k := n ! k - 1]) kk index"

text \<open>
  \<open>np.nonzero(index)\<close> of a one-dimensional array is a tuple of length one holding
  the array of the positions of the non-zero entries.
\<close>

definition nonzero_positions :: "index \<Rightarrow> nat list" where
  "nonzero_positions index = filter (\<lambda>k. index ! k \<noteq> 0) [0..<length index]"

definition np_nonzero :: "index \<Rightarrow> nat list list" where
  "np_nonzero index = [nonzero_positions index]"

section \<open>expand\_basis\<close>

text \<open>
  \<open>hash_array\<close> is imported from the package; it is the parameter \<open>key\<close> of the
  model. The loop \<open>for kk in active_vars\<close> runs over the elements of the tuple
  \<open>active_vars\<close>; it leaves with \<open>admissible = False\<close> at the first backward index
  whose key is not in \<open>indices_set\<close>.
\<close>

fun admissible_loop ::
  "(index \<Rightarrow> 'k) \<Rightarrow> 'k set \<Rightarrow> index \<Rightarrow> nat list list \<Rightarrow> bool" where
  "admissible_loop key indices_set forward_index [] = True"
| "admissible_loop key indices_set forward_index (kk # rest) =
     (if key (get_backward_neighbor forward_index kk) \<notin> indices_set then False
      else admissible_loop key indices_set forward_index rest)"

text \<open>The body of \<open>for dd in range(nvars)\<close>, on the state \<open>(indices_set, new_indices)\<close>.\<close>

definition expand_dim ::
  "(index \<Rightarrow> 'k) \<Rightarrow> index \<Rightarrow> nat list list \<Rightarrow> nat \<Rightarrow>
   'k set \<times> index list \<Rightarrow> 'k set \<times> index list" where
  "expand_dim key index active_vars dd st =
     (let forward_index = get_forward_neighbor index dd;
          k = key forward_index
      in if k \<notin> fst st then
           (if admissible_loop key (fst st) forward_index active_vars
            then (insert k (fst st), snd st @ [forward_index])
            else st)
         else st)"

text \<open>The body of the second \<open>for ii in range(nindices)\<close>.\<close>

definition expand_index ::
  "(index \<Rightarrow> 'k) \<Rightarrow> nat \<Rightarrow> index \<Rightarrow> 'k set \<times> index list \<Rightarrow> 'k set \<times> index list" where
  "expand_index key nvars index st =
     fold (expand_dim key index (np_nonzero index)) [0..<nvars] st"

definition expand_basis :: "(index \<Rightarrow> 'k) \<Rightarrow> nat \<Rightarrow> index list \<Rightarrow> index list" where
  "expand_basis key nvars indices =
     snd (fold (expand_index key nvars) indices (set (map key indices), []))"

section \<open>restrict\_basis\<close>

text \<open>
  \<open>I\<close> holds the row numbers of the coefficients whose magnitude exceeds \<open>tol\<close>,
  \<open>indices[:, I]\<close> raises IndexError at a row number that is no column of \<open>indices\<close>,
  \<open>J\<close> holds the columns whose entries sum to zero. In the branch \<open>J not in I\<close> the
  expression \<open>indices[:J]\<close> is evaluated first: \<open>J\<close> is an array of shape \<open>(1,)\<close>,
  which is no slice bound, and numpy raises TypeError; the name \<open>restrict_indices\<close>
  read next is bound nowhere in the function either. The branch returns nothing.
\<close>

definition restrict_basis :: "index list \<Rightarrow> real list \<Rightarrow> real \<Rightarrow> error + index list" where
  "restrict_basis indices coefficients tol =
     (let I = filter (\<lambda>i. \<bar>coefficients ! i\<bar> > tol) [0..<length coefficients]
      in if list_ex (\<lambda>i. length indices \<le> i) I then Inl IndexError
         else
           let restricted_indices = map (\<lambda>i. indices ! i) I;
               degrees = map sum_list indices;
               J = filter (\<lambda>j. degrees ! j = 0) [0..<length degrees]
           in if length J \<noteq> 1 then Inl AssertionError
              else if hd J \<notin> set I then Inl TypeError
              else Inr restricted_indices)"


section \<open>fit\_linear\_model\<close>

text \<open>
  The estimator classes of the table \<open>solvers\<close>, the values of the keyword options, and
  the attributes read from a fitted estimator. The estimators themselves are sklearn's
  (and the two least-squares classes); fitting one is the parameter \<open>estimator_fit\<close>,
  which takes the class, the options, the basis matrix and the column of values, and
  returns the fitted attributes or the exception it raised. \<open>fit\<close> returns the
  estimator itself, so the type of the result is the class that was instantiated.
  The field \<open>res_x\<close> is the attribute \<open>x_\<close>;
  \<open>mse_path_rms\<close> is the value of \<open>np.sqrt(mse_path_.mean(axis=-1).min())\<close> where
  the attribute \<open>mse_path_\<close> exists.
\<close>

datatype solver_class =
    LassoLarsCV | LassoLars
  | LassoCV | Lasso
  | LarsCV | Lars
  | OrthogonalMatchingPursuitCV | OrthogonalMatchingPursuit
  | LinearLeastSquaresCV | LinearLeastSquares

datatype py_value = PyNone | PyBool bool | PyInt int | PyFloat real | PyStr string | PyObject

type_synonym kwargs = "string \<rightharpoonup> py_value"

record matrix =
  nrows :: nat
  ncols :: nat
  entries :: "real list list"

record fitted =
  res_coef :: "real list"
  res_intercept :: real
  res_cv_score :: "real option"
  mse_path_rms :: "real option"
  res_alpha :: real
  res_n_iter :: "nat list"
  res_n_nonzero_coefs :: nat

datatype reg_param = Alpha real | AlphaIter real nat | NonzeroCoefs nat

type_synonym fit_result = "real list \<times> real option \<times> reg_param option"

definition solvers :: "(string \<times> solver_class list) list" where
  "solvers =
     [(''lasso'', [LassoLarsCV, LassoLars]),
      (''lasso_grad'', [LassoCV, Lasso]),
      (''lars'', [LarsCV, Lars]),
      (''omp'', [OrthogonalMatchingPursuitCV, OrthogonalMatchingPursuit]),
      (''lstsq'', [LinearLeastSquaresCV, LinearLeastSquares])]"

definition unsupported_msg :: "string \<Rightarrow> string" where
  "unsupported_msg solver_type =
     ''Solver type '' @ solver_type @ '' not supported'' @ [CHR 0x0A] @
     ''Supported solvers are:'' @ [CHR 0x0A] @
     concat (map (\<lambda>key. [CHR 0x09] @ key @ [CHR 0x0A]) (map fst solvers))"

definition lars_msg :: string where
  "lars_msg =
     ''Currently lars does not exit when alpha starts to grow '' @
     ''this causes problems with cross validation. The lasso variant '' @
     ''lars does work because this exit condition is implemented''"

definition extract_best_regularization_parameters ::
  "solver_class \<Rightarrow> fitted \<Rightarrow> error + reg_param" where
  "extract_best_regularization_parameters type_res res =
     (if type_res = LassoLarsCV \<or> type_res = LinearLeastSquaresCV then Inr (Alpha (res_alpha res))
      else if type_res = LarsCV then
        (if length (res_n_iter res) \<noteq> 1 then Inl AssertionError
         else Inr (AlphaIter (res_alpha res) (res_n_iter res ! 0)))
      else if type_res = OrthogonalMatchingPursuitCV then
        Inr (NonzeroCoefs (res_n_nonzero_coefs res))
      else Inl (Exception []))"

definition extract_cross_validation_score :: "fitted \<Rightarrow> error + real" where
  "extract_cross_validation_score linear_model =
     (case res_cv_score linear_model of
        Some s \<Rightarrow> Inr s
      | None \<Rightarrow>
          (case mse_path_rms linear_model of
             Some s \<Rightarrow> Inr s
           | None \<Rightarrow> Inl (Exception ''attribute mse_path_ not found'')))"

text \<open>
  \<open>min(kwargs['max_iter'], basis_matrix.shape[1])\<close>: the first argument unless the
  second is smaller; a value that is no number does not compare with an integer.
\<close>

definition py_min_with_int :: "py_value \<Rightarrow> int \<Rightarrow> error + py_value" where
  "py_min_with_int v n =
     (case v of
        PyInt m \<Rightarrow> Inr (if n < m then PyInt n else v)
      | PyBool b \<Rightarrow> Inr (if n < (if b then 1 else 0) then PyInt n else v)
      | PyFloat x \<Rightarrow> Inr (if of_int n < x then PyInt n else v)
      | _ \<Rightarrow> Inl TypeError)"

definition omp_max_iter :: "string \<Rightarrow> kwargs \<Rightarrow> matrix \<Rightarrow> error + kwargs" where
  "omp_max_iter solver_type kw basis_matrix =
     (if solver_type = ''omp'' then
        (case kw ''max_iter'' of
           None \<Rightarrow> Inr kw
         | Some v \<Rightarrow>
             (case py_min_with_int v (int (ncols basis_matrix)) of
                Inl e \<Rightarrow> Inl e
              | Inr v' \<Rightarrow> Inr (kw(''max_iter'' \<mapsto> v'))))
      else Inr kw)"

text \<open>
  \<open>train_vals\<close> is a two-dimensional array, so the first assertion holds by its type.
  \<open>coef[0] += res.intercept_\<close> raises IndexError on an empty coefficient vector.
\<close>

definition fit_linear_model ::
  "(solver_class \<Rightarrow> kwargs \<Rightarrow> matrix \<Rightarrow> real list \<Rightarrow> error + fitted) \<Rightarrow>
   matrix \<Rightarrow> matrix \<Rightarrow> string \<Rightarrow> kwargs \<Rightarrow> error + fit_result" where
  "fit_linear_model estimator_fit basis_matrix train_vals solver_type kw =
     (case map_of solvers solver_type of
        None \<Rightarrow> Inl (Exception (unsupported_msg solver_type))
      | Some classes \<Rightarrow>
          if solver_type = ''lars'' then Inl (Exception lars_msg)
          else if ncols train_vals \<noteq> 1 then Inl AssertionError
          else
            (case omp_max_iter solver_type kw basis_matrix of
               Inl e \<Rightarrow> Inl e
             | Inr kw' \<Rightarrow>
                 let solver_idx =
                       (if kw' ''cv'' = None \<or> kw' ''cv'' = Some (PyBool False)
                        then 1 else 0 :: nat);
                     type_res = classes ! solver_idx
                 in (case estimator_fit type_res kw' basis_matrix
                            (map (\<lambda>row. row ! 0) (entries train_vals)) of
                       Inl e \<Rightarrow> Inl e
                     | Inr res \<Rightarrow>
                         if res_coef res = [] then Inl IndexError
                         else
                           let coef = (hd (res_coef res) + res_intercept res) # tl (res_coef res)
                           in if kw' ''cv'' \<noteq> None then
                                (case extract_cross_validation_score res of
                                   Inl e \<Rightarrow> Inl e
                                 | Inr cv_score \<Rightarrow>
                                     (case extract_best_regularization_parameters type_res res of
                                        Inl e \<Rightarrow> Inl e
                                      | Inr best_regularization_param \<Rightarrow>
                                          Inr (coef, Some cv_score,
                                               Some best_regularization_param)))
                              else Inr (coef, None, None))))"


section \<open>The merge of the per-QoI results\<close>












section \<open>The expanding-basis search\<close>

text \<open>
  Modelled from the spec: \<open>compute_hyperbolic_indices\<close> is imported from the package
  and is not part of this file. The searches take it as the parameter \<open>hyp\<close>, the map
  from a degree to the index array (number of variables and strength are fixed during a
  search). For strength 1 the spec gives the set as all indices of total degree at most
  \<open>degree\<close>; \<open>compute_hyperbolic_indices_1\<close> enumerates it and is used at concrete
  inputs only.
\<close>

fun total_degree_indices :: "nat \<Rightarrow> nat \<Rightarrow> index list" where
  "total_degree_indices 0 degree = [[]]"
| "total_degree_indices (Suc nvars) degree =
     concat (map (\<lambda>i. map (\<lambda>rest. int i # rest) (total_degree_indices nvars (degree - i)))
       [0..<Suc degree])"

definition compute_hyperbolic_indices_1 :: "nat \<Rightarrow> int \<Rightarrow> index list" where
  "compute_hyperbolic_indices_1 num_vars degree = total_degree_indices num_vars (nat degree)"

text \<open>
  The seed of \<open>_expanding_basis_pce\<close>: the loop \<open>while True\<close> leaves at the first
  degree from 2 on whose index count exceeds \<open>max_num_terms\<close>; it returns the degree,
  \<open>num_terms\<close> and \<open>prev_num_terms\<close>, or nothing if no degree does.
\<close>

partial_function (option) seed_loop ::
  "(int \<Rightarrow> index list) \<Rightarrow> int \<Rightarrow> int \<Rightarrow> int \<Rightarrow> (int \<times> int \<times> int) option" where
  "seed_loop hyp max_num_terms degree prev_num_terms =
     (if int (length (hyp degree)) > max_num_terms
      then Some (degree, int (length (hyp degree)), prev_num_terms)
      else seed_loop hyp max_num_terms (degree + 1) (int (length (hyp degree))))"

declare seed_loop.simps [code]

text \<open>
  The degree is lowered by one if the count at the previous degree (0 before any) is
  strictly closer to \<open>max_num_terms\<close>.
\<close>

definition seed_choice :: "(int \<Rightarrow> index list) \<Rightarrow> int \<Rightarrow> (int \<times> int) option" where
  "seed_choice hyp max_num_terms =
     (case seed_loop hyp max_num_terms 2 0 of
        None \<Rightarrow> None
      | Some (degree, num_terms, prev_num_terms) \<Rightarrow>
          Some (if \<bar>num_terms - max_num_terms\<bar> > \<bar>prev_num_terms - max_num_terms\<bar>
                then degree - 1 else degree, num_terms))"

definition seed_degree :: "(int \<Rightarrow> index list) \<Rightarrow> int \<Rightarrow> int option" where
  "seed_degree hyp max_num_terms = map_option fst (seed_choice hyp max_num_terms)"

text \<open>
  The variables of \<open>_expanding_basis_pce\<close> (its name with the leading underscore is
  \<open>expanding_basis_pce_one_qoi\<close> here). The basis object \<open>pce\<close> is its index array and
  coefficients; \<open>set_indices\<close>, \<open>set_coefficients\<close> and \<open>num_terms\<close> (the number of
  indices) are the basis evaluator's. \<open>best_iter\<close> holds \<open>best_indices_iter\<close>,
  \<open>best_coef_iter\<close> and \<open>best_reg_param_iter\<close>, which are bound together and not bound
  before the first improvement; \<open>iter\<close> is the counter \<open>it\<close>. The fit of a basis,
  \<open>fit_linear_model\<close> on the basis matrix of the index array, is the parameter \<open>fit\<close>.
\<close>

record search_state =
  pce_indices :: "index list"
  pce_coefficients :: "real list"
  num_terms :: int
  best_coef :: "real list"
  best_cv_score :: "real option"
  best_indices :: "index list"
  best_reg_param :: "reg_param option"
  best_cv_score_iter :: "real option"
  best_iter :: "(index list \<times> real list \<times> reg_param option) option"
  best_num_expansion_steps :: nat
  best_num_expansion_steps_iter :: nat
  iter :: nat
  best_it :: nat

text \<open>
  \<open>a < b\<close> on scores: a score is \<open>None\<close> when the options have no \<open>cv\<close> key, and
  comparing \<open>None\<close> raises TypeError.
\<close>

definition py_lt :: "real option \<Rightarrow> real option \<Rightarrow> error + bool" where
  "py_lt a b =
     (case a of None \<Rightarrow> Inl TypeError
      | Some x \<Rightarrow> (case b of None \<Rightarrow> Inl TypeError | Some y \<Rightarrow> Inr (x < y)))"

text \<open>
  The loop \<open>while num_expansion_steps < max_num_expansion_steps and
  num_expansion_steps < best_num_expansion_steps\<close>. \<open>expand_basis\<close> is applied to
  \<open>pce.indices\<close>. With no new index \<open>np.asarray(new_indices).T\<close> has one dimension and
  \<open>np.hstack\<close> raises ValueError.
\<close>

function expand_loop ::
  "(index \<Rightarrow> 'k) \<Rightarrow> nat \<Rightarrow> nat \<Rightarrow> nat \<Rightarrow> nat \<Rightarrow> index list \<Rightarrow> int \<Rightarrow>
   error + index list \<times> int \<times> nat" where
  "expand_loop key nvars max_num_expansion_steps best_steps num_expansion_steps idx nt =
     (if num_expansion_steps < max_num_expansion_steps \<and> num_expansion_steps < best_steps
      then
        (let new_indices = expand_basis key nvars idx
         in if new_indices = [] then Inl ValueError
            else expand_loop key nvars max_num_expansion_steps best_steps
                   (Suc num_expansion_steps) (idx @ new_indices)
                   (int (length (idx @ new_indices))))
      else Inr (idx, nt, num_expansion_steps))"
  by pat_completeness auto
termination
  by (relation "measure (\<lambda>(key, nvars, m, b, n, idx, nt). m - n)") auto

text \<open>
  One pass of the inner \<open>while True\<close>: the result of \<open>restrict_basis\<close> is bound to the
  local name \<open>indices\<close>, which is not read again; then the expansion, the fit and the
  record of the best of this sequence.
\<close>

definition inner_body ::
  "(index \<Rightarrow> 'k) \<Rightarrow> nat \<Rightarrow> (index list \<Rightarrow> error + fit_result) \<Rightarrow> real \<Rightarrow> nat \<Rightarrow>
   search_state \<Rightarrow> error + search_state" where
  "inner_body key nvars fit restriction_tol max_num_expansion_steps st =
     (case restrict_basis (pce_indices st) (pce_coefficients st) restriction_tol of
        Inl e \<Rightarrow> Inl e
      | Inr indices \<Rightarrow>
          (case expand_loop key nvars max_num_expansion_steps (best_num_expansion_steps st) 0
                  (pce_indices st) (num_terms st) of
             Inl e \<Rightarrow> Inl e
           | Inr (idx, nt, num_expansion_steps) \<Rightarrow>
               (case fit idx of
                  Inl e \<Rightarrow> Inl e
                | Inr (coef, cv_score, reg_param) \<Rightarrow>
                    (case py_lt cv_score (best_cv_score_iter st) of
                       Inl e \<Rightarrow> Inl e
                     | Inr improved \<Rightarrow>
                         let st1 = st\<lparr>pce_indices := idx, num_terms := nt,
                                      pce_coefficients := coef\<rparr>
                         in Inr (if improved
                                 then st1\<lparr>best_cv_score_iter := cv_score,
                                          best_iter := Some (idx, coef, reg_param),
                                          best_num_expansion_steps_iter := num_expansion_steps\<rparr>
                                 else st1)))))"

function inner_loop ::
  "(index \<Rightarrow> 'k) \<Rightarrow> nat \<Rightarrow> (index list \<Rightarrow> error + fit_result) \<Rightarrow> real \<Rightarrow> int \<Rightarrow> nat \<Rightarrow>
   search_state \<Rightarrow> error + search_state" where
  "inner_loop key nvars fit restriction_tol max_num_terms max_num_expansion_steps st =
     (case inner_body key nvars fit restriction_tol max_num_expansion_steps st of
        Inl e \<Rightarrow> Inl e
      | Inr st' \<Rightarrow>
          if num_terms st' \<ge> max_num_terms then Inr st'
          else if max_num_expansion_steps \<ge> 3 then Inr st'
          else inner_loop key nvars fit restriction_tol max_num_terms
                 (max_num_expansion_steps + 1) st')"
  by pat_completeness auto
termination
  by (relation "measure (\<lambda>(key, nvars, fit, tol, mnt, m, st). 3 - m)") auto

text \<open>
  The end of one pass of the outer loop; the flag says whether the loop is left.
\<close>

definition outer_update :: "search_state \<Rightarrow> error + bool \<times> search_state" where
  "outer_update st =
     (case py_lt (best_cv_score_iter st) (best_cv_score st) of
        Inl e \<Rightarrow> Inl e
      | Inr improved \<Rightarrow>
          if improved then
            (case best_iter st of
               None \<Rightarrow> Inl NameError
             | Some (best_indices_iter, best_coef_iter, best_reg_param_iter) \<Rightarrow>
                 Inr (False,
                      st\<lparr>best_cv_score := best_cv_score_iter st,
                         best_coef := best_coef_iter,
                         best_indices := best_indices_iter,
                         best_num_expansion_steps := best_num_expansion_steps_iter st,
                         best_reg_param := best_reg_param_iter,
                         best_it := iter st,
                         iter := iter st + 1\<rparr>))
          else if iter st - best_it st \<ge> 2 then Inr (True, st)
          else Inr (False, st\<lparr>iter := iter st + 1\<rparr>))"

partial_function (option) outer_loop ::
  "(index \<Rightarrow> 'k) \<Rightarrow> nat \<Rightarrow> (index list \<Rightarrow> error + fit_result) \<Rightarrow> real \<Rightarrow> int \<Rightarrow>
   search_state \<Rightarrow> (error + search_state) option" where
  "outer_loop key nvars fit restriction_tol max_num_terms st =
     (case inner_loop key nvars fit restriction_tol max_num_terms 1
             (st\<lparr>best_num_expansion_steps_iter := best_num_expansion_steps st\<rparr>) of
        Inl e \<Rightarrow> Some (Inl e)
      | Inr st1 \<Rightarrow>
          (case outer_update st1 of
             Inl e \<Rightarrow> Some (Inl e)
           | Inr (stop, st2) \<Rightarrow>
               if stop then Some (Inr st2)
               else outer_loop key nvars fit restriction_tol max_num_terms st2))"

declare outer_loop.simps [code]

text \<open>
  \<open>I = np.nonzero(best_coef[:, 0])[0]\<close>, then the columns \<open>I\<close> of \<open>best_indices\<close> and
  the rows \<open>I\<close> of \<open>best_coef\<close>.
\<close>

definition finalize ::
  "search_state \<Rightarrow> error + index list \<times> real list \<times> real option \<times> reg_param option" where
  "finalize st =
     (let I = filter (\<lambda>i. best_coef st ! i \<noteq> 0) [0..<length (best_coef st)]
      in if list_ex (\<lambda>i. length (best_indices st) \<le> i) I then Inl IndexError
         else Inr (map (\<lambda>i. best_indices st ! i) I, map (\<lambda>i. best_coef st ! i) I,
                   best_cv_score st, best_reg_param st))"

definition expanding_basis_pce_one_qoi ::
  "(index \<Rightarrow> 'k) \<Rightarrow> nat \<Rightarrow> (int \<Rightarrow> index list) \<Rightarrow> (index list \<Rightarrow> error + fit_result) \<Rightarrow>
   matrix \<Rightarrow> int option \<Rightarrow> real \<Rightarrow>
   (error + index list \<times> real list \<times> real option \<times> reg_param option) option" where
  "expanding_basis_pce_one_qoi key num_vars hyp fit train_vals max_num_terms restriction_tol =
     (if ncols train_vals \<noteq> 1 then Some (Inl AssertionError)
      else
        let max_num_terms' =
              (case max_num_terms of None \<Rightarrow> 10 * int (ncols train_vals) | Some m \<Rightarrow> m)
        in case seed_choice hyp max_num_terms' of
             None \<Rightarrow> None
           | Some (degree, nt) \<Rightarrow>
               (case fit (hyp degree) of
                  Inl e \<Rightarrow> Some (Inl e)
                | Inr (coef, cv_score, reg_param) \<Rightarrow>
                    (case outer_loop key num_vars fit restriction_tol max_num_terms'
                            \<lparr>pce_indices = hyp degree, pce_coefficients = coef,
                             num_terms = nt, best_coef = coef, best_cv_score = cv_score,
                             best_indices = hyp degree, best_reg_param = reg_param,
                             best_cv_score_iter = cv_score, best_iter = None,
                             best_num_expansion_steps = 3,
                             best_num_expansion_steps_iter = 3,
                             iter = 0, best_it = 0\<rparr> of
                       None \<Rightarrow> None
                     | Some (Inl e) \<Rightarrow> Some (Inl e)
                     | Some (Inr st) \<Rightarrow> Some (finalize st))))"

definition num_terms_at :: "(int \<Rightarrow> index list) \<Rightarrow> int \<Rightarrow> int" where
  "num_terms_at hyp degree = int (length (hyp degree))"

section \<open>The degree sweep\<close>

text \<open>
  The variables of \<open>_cross_validate_pce_degree\<close> (\<open>cross_validate_pce_degree_one\<close>
  here): the basis object, the loop variable \<open>degree\<close>, which is not bound before the
  first pass, and the best fit so far; \<open>best_reg_param\<close> is bound by the first
  improvement only. \<open>double_max\<close> is \<open>np.finfo(np.double).max\<close>.
\<close>

definition double_max :: real where
  "double_max = (2 - 1 / 2 ^ 52) * 2 ^ 1023"

record degree_state =
  cv_pce_indices :: "index list"
  cv_pce_coefficients :: "real list"
  cv_degree :: "int option"
  cv_best_coef :: "real list option"
  cv_best_cv_score :: real
  cv_best_degree :: int
  cv_best_reg_param :: "reg_param option option"
  cv_prev_num_terms :: int

text \<open>
  The test made before the fit: more than 100000 terms, and farther above 100000 than
  the previous degree was below.
\<close>

definition term_cap_reached :: "int \<Rightarrow> int \<Rightarrow> bool" where
  "term_cap_reached nt prev_num_terms \<longleftrightarrow>
     nt > 100000 \<and> 100000 - prev_num_terms < nt - 100000"

text \<open>
  The test made after the fit: the new score is no better than the best one and the
  degree is more than one above the best degree.
\<close>

definition no_improvement_stop :: "real \<Rightarrow> real \<Rightarrow> int \<Rightarrow> int \<Rightarrow> bool" where
  "no_improvement_stop cv_score best degree best_degree \<longleftrightarrow>
     cv_score \<ge> best \<and> degree - best_degree > 1"

text \<open>
  The end of a pass that does not stop: a strictly better score replaces the best fit,
  and \<open>prev_num_terms\<close> is set.
\<close>

definition track_best ::
  "int \<Rightarrow> int \<Rightarrow> real list \<Rightarrow> real \<Rightarrow> reg_param option \<Rightarrow> degree_state \<Rightarrow> degree_state" where
  "track_best degree nt coef cv_score reg_param st =
     (if cv_score < cv_best_cv_score st
      then st\<lparr>cv_best_cv_score := cv_score, cv_best_coef := Some coef,
              cv_best_degree := degree, cv_best_reg_param := Some reg_param\<rparr>
      else st)\<lparr>cv_prev_num_terms := nt\<rparr>"

text \<open>
  The loop \<open>for degree in range(min_degree, max_degree+1)\<close> over the list of its
  degrees. A score \<open>None\<close> does not compare with a float (TypeError).
\<close>

fun degree_loop ::
  "(int \<Rightarrow> index list) \<Rightarrow> (index list \<Rightarrow> error + fit_result) \<Rightarrow> int list \<Rightarrow>
   degree_state \<Rightarrow> error + degree_state" where
  "degree_loop hyp fit [] st = Inr st"
| "degree_loop hyp fit (degree # rest) st =
     (let indices = hyp degree;
          nt = int (length indices);
          st1 = st\<lparr>cv_pce_indices := indices, cv_degree := Some degree\<rparr>
      in if term_cap_reached nt (cv_prev_num_terms st1) then Inr st1
         else
           (case fit indices of
              Inl e \<Rightarrow> Inl e
            | Inr (coef, cv_score, reg_param) \<Rightarrow>
                (case cv_score of
                   None \<Rightarrow> Inl TypeError
                 | Some s \<Rightarrow>
                     let st2 = st1\<lparr>cv_pce_coefficients := coef\<rparr>
                     in if no_improvement_stop s (cv_best_cv_score st2) degree
                             (cv_best_degree st2)
                        then Inr st2
                        else degree_loop hyp fit rest
                               (track_best degree nt coef s reg_param st2))))"

text \<open>
  The state before the loop; the basis object is the caller's.
\<close>

definition degree_state_init :: "index list \<Rightarrow> real list \<Rightarrow> int \<Rightarrow> degree_state" where
  "degree_state_init pce_indices0 pce_coefficients0 min_degree =
     \<lparr>cv_pce_indices = pce_indices0, cv_pce_coefficients = pce_coefficients0,
      cv_degree = None, cv_best_coef = None, cv_best_cv_score = double_max,
      cv_best_degree = min_degree, cv_best_reg_param = None,
      cv_prev_num_terms = 0\<rparr>"

text \<open>
  \<open>max_degree = None\<close> stands for \<open>np.iinfo(int).max - 1\<close>. After the loop the basis of
  the best degree and the best coefficients are set and returned with the best score, the
  best degree and \<open>best_reg_param\<close>; with no improvement at all \<open>best_coef\<close> is
  \<open>None\<close> and \<open>best_reg_param\<close> is not bound, and the function raises (NameError at the
  return at the latest).
\<close>

definition cross_validate_pce_degree_one ::
  "(int \<Rightarrow> index list) \<Rightarrow> (index list \<Rightarrow> error + fit_result) \<Rightarrow> index list \<Rightarrow> real list \<Rightarrow>
   matrix \<Rightarrow> int option \<Rightarrow> int option \<Rightarrow>
   error + index list \<times> real list \<times> real \<times> int \<times> reg_param option" where
  "cross_validate_pce_degree_one hyp fit pce_indices0 pce_coefficients0 train_vals
       min_degree max_degree =
     (if ncols train_vals \<noteq> 1 then Inl AssertionError
      else
        let min_degree' = (case min_degree of None \<Rightarrow> 2 | Some m \<Rightarrow> m);
            max_degree' = (case max_degree of None \<Rightarrow> 2 ^ 63 - 1 - 1 | Some m \<Rightarrow> m)
        in case degree_loop hyp fit [min_degree'..max_degree']
                  (degree_state_init pce_indices0 pce_coefficients0 min_degree') of
             Inl e \<Rightarrow> Inl e
           | Inr st \<Rightarrow>
               (case cv_best_coef st of
                  None \<Rightarrow> Inl NameError
                | Some coef \<Rightarrow>
                    (case cv_best_reg_param st of
                       None \<Rightarrow> Inl NameError
                     | Some reg_param \<Rightarrow>
                         Inr (hyp (cv_best_degree st), coef, cv_best_cv_score st,
                              cv_best_degree st, reg_param))))"













section \<open>No duplicate admission\<close>

definition fresh_inv :: "(index \<Rightarrow> 'k) \<Rightarrow> index list \<Rightarrow> 'k set \<times> index list \<Rightarrow> bool" where
  "fresh_inv key indices st \<longleftrightarrow>
     key ` set indices \<subseteq> fst st \<and> key ` set (snd st) \<subseteq> fst st \<and>
     distinct (map key (snd st)) \<and> key ` set (snd st) \<inter> key ` set indices = {}"

lemma fresh_inv_init: "fresh_inv key indices (set (map key indices), [])"
  by (simp add: fresh_inv_def)

lemma fresh_inv_expand_dim:
  assumes "fresh_inv key indices st"
  shows "fresh_inv key indices (expand_dim key index av dd st)"
proof (cases "key (get_forward_neighbor index dd) \<notin> fst st \<and>
    admissible_loop key (fst st) (get_forward_neighbor index dd) av")
  case True
  then have new: "key (get_forward_neighbor index dd) \<notin> fst st" by simp
  from True have eq: "expand_dim key index av dd st =
      (insert (key (get_forward_neighbor index dd)) (fst st),
       snd st @ [get_forward_neighbor index dd])"
    by (simp add: expand_dim_def Let_def)
  from assms new show ?thesis
    unfolding eq fresh_inv_def by auto
next
  case False
  then have "expand_dim key index av dd st = st"
    by (auto simp: expand_dim_def Let_def)
  with assms show ?thesis by simp
qed

lemma fresh_inv_fold_dim:
  "fresh_inv key indices st \<Longrightarrow>
   fresh_inv key indices (fold (expand_dim key index av) dds st)"
  by (induction dds arbitrary: st) (simp_all add: fresh_inv_expand_dim)

lemma fresh_inv_expand_index:
  "fresh_inv key indices st \<Longrightarrow> fresh_inv key indices (expand_index key nvars index st)"
  by (simp add: expand_index_def fresh_inv_fold_dim)

lemma fresh_inv_fold_index:
  "fresh_inv key indices st \<Longrightarrow>
   fresh_inv key indices (fold (expand_index key nvars) xs st)"
  by (induction xs arbitrary: st) (simp_all add: fresh_inv_expand_index)

lemma fresh_inv_expand_basis:
  "fresh_inv key indices (fold (expand_index key nvars) indices (set (map key indices), []))"
  by (rule fresh_inv_fold_index [OF fresh_inv_init])

text \<open>
  C6. For every index array, whatever the key function, \<open>expand_basis\<close> returns no index
  equal to a column of its argument and returns no index twice.
\<close>

theorem expand_basis_no_duplicate_admission:
  "set (expand_basis key nvars indices) \<inter> set indices = {} \<and>
   distinct (expand_basis key nvars indices)"
proof -
  let ?st = "fold (expand_index key nvars) indices (set (map key indices), [])"
  have inv: "fresh_inv key indices ?st" by (rule fresh_inv_expand_basis)
  have d: "distinct (map key (snd ?st))" using inv by (simp add: fresh_inv_def)
  have i: "key ` set (snd ?st) \<inter> key ` set indices = {}"
    using inv by (simp add: fresh_inv_def)
  have "distinct (snd ?st)" using d by (simp add: distinct_map)
  moreover have "set (snd ?st) \<inter> set indices = {}" using i by blast
  ultimately show ?thesis by (simp add: expand_basis_def)
qed

section \<open>Restriction and the constant index\<close>

lemma restrict_basis_kept:
  assumes "length coefficients = length indices"
    and "filter (\<lambda>j. sum_list (indices ! j) = 0) [0..<length indices] = [j]"
    and "\<bar>coefficients ! j\<bar> > tol"
  shows "restrict_basis indices coefficients tol =
    Inr (map (\<lambda>i. indices ! i)
      (filter (\<lambda>i. \<bar>coefficients ! i\<bar> > tol) [0..<length indices]))"
proof -
  have J: "filter (\<lambda>j. map sum_list indices ! j = 0) [0..<length indices] = [j]"
  proof -
    have "filter (\<lambda>j. map sum_list indices ! j = 0) [0..<length indices] =
        filter (\<lambda>j. sum_list (indices ! j) = 0) [0..<length indices]"
      by (rule filter_cong) auto
    then show ?thesis using assms(2) by simp
  qed
  have "j \<in> set (filter (\<lambda>j. sum_list (indices ! j) = 0) [0..<length indices])"
    unfolding assms(2) by simp
  then have "j < length indices" by simp
  with assms(3) have jI: "j \<in> set (filter (\<lambda>i. \<bar>coefficients ! i\<bar> > tol) [0..<length indices])"
    by simp
  have noex: "\<not> list_ex (\<lambda>i. length indices \<le> i)
      (filter (\<lambda>i. \<bar>coefficients ! i\<bar> > tol) [0..<length indices])"
    by (auto simp: list_ex_iff)
  show ?thesis
    using J jI noex by (simp add: restrict_basis_def Let_def assms(1))
qed

text \<open>
  C1. The claim holds where the coefficient of the constant index exceeds the tolerance
  (\<open>restrict_basis_kept\<close>). At the two indices \<open>(0)\<close> and \<open>(1)\<close> with the coefficients
  \<open>0\<close> and \<open>1\<close> and the tolerance \<open>1/2\<close> the claim asks for both indices; the function
  raises in the branch that was to put the constant index back.
\<close>

theorem restrict_basis_constant_below_tol_raises:
  "restrict_basis [[0], [1]] [0, 1] (1/2) = Inl TypeError"
  by (simp add: restrict_basis_def)

section \<open>Admissibility of the expansion\<close>

text \<open>
  C2. The index set \<open>(0,0), (1,0), (0,1), (1,1)\<close> is admissible. \<open>expand_basis\<close>
  returns \<open>(2,1)\<close> for it, whose backward neighbour in dimension 1 is \<open>(2,0)\<close>, no
  member of the set: the loop over \<open>active_vars\<close> runs once, over the whole array of
  the active positions of \<open>(1,1)\<close>, and tests the single index \<open>(1,0)\<close>.
\<close>

theorem expand_basis_admits_inadmissible:
  "expand_basis (\<lambda>i. i) 2 [[0, 0], [1, 0], [0, 1], [1, 1]] =
     [[2, 0], [0, 2], [2, 1], [1, 2]] \<and>
   get_backward_neighbor [2, 1] [1] = [2, 0] \<and>
   [2, 0] \<notin> set [[0, 0], [1, 0], [0, 1], [1, 1 :: int]]"
  by code_simp

section \<open>Solvers that cannot fit\<close>

lemma map_of_solvers_lars: "map_of solvers ''lars'' = Some [LarsCV, Lars]"
  by (simp add: solvers_def)

lemma map_of_solvers_lasso_grad: "map_of solvers ''lasso_grad'' = Some [LassoCV, Lasso]"
  by (simp add: solvers_def)

lemma omp_max_iter_other:
  "solver_type \<noteq> ''omp'' \<Longrightarrow> omp_max_iter solver_type kw basis_matrix = Inr kw"
  by (simp add: omp_max_iter_def)

lemma extract_best_LassoCV:
  "extract_best_regularization_parameters LassoCV res = Inl (Exception [])"
  by (simp add: extract_best_regularization_parameters_def)

lemma fit_linear_model_lars:
  "fit_linear_model estimator_fit basis_matrix train_vals ''lars'' kw = Inl (Exception lars_msg)"
  by (simp add: fit_linear_model_def map_of_solvers_lars)

text \<open>
  C9. For the solver type \<open>lasso_grad\<close> with a \<open>cv\<close> option other than \<open>False\<close>,
  \<open>fit_linear_model\<close> returns no result, whatever the estimator does; where the
  \<open>LassoCV\<close> fit itself returns, with a coefficient and a score to read, the exception is
  the unnamed one raised at the end of \<open>extract_best_regularization_parameters\<close>.
\<close>

theorem lasso_grad_cv_always_raises:
  assumes "kw ''cv'' = Some v" and "v \<noteq> PyBool False"
  shows "isl (fit_linear_model estimator_fit basis_matrix train_vals ''lasso_grad'' kw) \<and>
    (ncols train_vals = 1 \<and>
     estimator_fit LassoCV kw basis_matrix (map (\<lambda>row. row ! 0) (entries train_vals)) = Inr res \<and>
     res_coef res \<noteq> [] \<and> extract_cross_validation_score res = Inr s \<longrightarrow>
     fit_linear_model estimator_fit basis_matrix train_vals ''lasso_grad'' kw =
       Inl (Exception []))"
proof -
  have kw: "omp_max_iter ''lasso_grad'' kw basis_matrix = Inr kw"
    by (rule omp_max_iter_other) simp
  have idx: "\<not> (kw ''cv'' = None \<or> kw ''cv'' = Some (PyBool False))"
    using assms by simp
  have eq: "fit_linear_model estimator_fit basis_matrix train_vals ''lasso_grad'' kw =
     (if ncols train_vals \<noteq> 1 then Inl AssertionError
      else case estimator_fit LassoCV kw basis_matrix
                  (map (\<lambda>row. row ! 0) (entries train_vals)) of
             Inl e \<Rightarrow> Inl e
           | Inr res \<Rightarrow>
               if res_coef res = [] then Inl IndexError
               else (case extract_cross_validation_score res of
                       Inl e \<Rightarrow> Inl e
                     | Inr cv_score \<Rightarrow> Inl (Exception [])))"
    using idx
    by (simp add: fit_linear_model_def map_of_solvers_lasso_grad kw extract_best_LassoCV
        assms(1) split: sum.splits)
  show ?thesis
    unfolding eq by (simp split: sum.splits)
qed

theorem lasso_grad_cv_always_raises_witness:
  "fit_linear_model
     (\<lambda>cls kw X y. Inr \<lparr>res_coef = [1, 2], res_intercept = 0, res_cv_score = None,
        mse_path_rms = Some 3, res_alpha = 1, res_n_iter = [], res_n_nonzero_coefs = 0\<rparr>)
     \<lparr>nrows = 1, ncols = 2, entries = [[1, 1]]\<rparr>
     \<lparr>nrows = 1, ncols = 1, entries = [[5]]\<rparr>
     ''lasso_grad'' [''cv'' \<mapsto> PyInt 10] = Inl (Exception [])"
  using lasso_grad_cv_always_raises [where kw = "[''cv'' \<mapsto> PyInt 10]" and v = "PyInt 10"
     and train_vals = "\<lparr>nrows = 1, ncols = 1, entries = [[5]]\<rparr>"
     and estimator_fit = "\<lambda>cls kw X y. Inr \<lparr>res_coef = [1, 2], res_intercept = 0,
        res_cv_score = None, mse_path_rms = Some 3, res_alpha = 1, res_n_iter = [],
        res_n_nonzero_coefs = 0\<rparr>"
     and basis_matrix = "\<lparr>nrows = 1, ncols = 2, entries = [[1, 1]]\<rparr>"
     and res = "\<lparr>res_coef = [1, 2], res_intercept = 0, res_cv_score = None,
        mse_path_rms = Some 3, res_alpha = 1, res_n_iter = [], res_n_nonzero_coefs = 0\<rparr>"
     and s = 3]
  by (simp add: extract_cross_validation_score_def)

section \<open>The merge keeps every QoI's coefficients\<close>




















section \<open>The seed of the expanding-basis search\<close>

lemma seed_loop_first_exceeding:
  assumes "max_num_terms < int (length (hyp (s + int k)))"
    and "\<forall>j<k. int (length (hyp (s + int j))) \<le> max_num_terms"
  shows "seed_loop hyp max_num_terms s p =
    Some (s + int k, int (length (hyp (s + int k))),
          if k = 0 then p else int (length (hyp (s + int k - 1))))"
  using assms
proof (induction k arbitrary: s p)
  case 0
  then show ?case by (subst seed_loop.simps) simp
next
  case (Suc k)
  have le: "int (length (hyp s)) \<le> max_num_terms" using Suc.prems(2) [rule_format, of 0] by simp
  have e: "\<And>j. s + 1 + int j = s + int (Suc j)" by simp
  have a: "max_num_terms < int (length (hyp (s + 1 + int k)))"
    unfolding e by (rule Suc.prems(1))
  have b: "\<forall>j<k. int (length (hyp (s + 1 + int j))) \<le> max_num_terms"
  proof (intro allI impI)
    fix j assume "j < k"
    then have "Suc j < Suc k" by simp
    from Suc.prems(2) [rule_format, OF this]
    show "int (length (hyp (s + 1 + int j))) \<le> max_num_terms"
      unfolding e .
  qed
  have "seed_loop hyp max_num_terms s p =
      seed_loop hyp max_num_terms (s + 1) (int (length (hyp s)))"
    using le by (subst seed_loop.simps) simp
  also have "\<dots> = Some (s + 1 + int k, int (length (hyp (s + 1 + int k))),
          if k = 0 then int (length (hyp s)) else int (length (hyp (s + 1 + int k - 1))))"
    by (rule Suc.IH [OF a b])
  also have "\<dots> = Some (s + int (Suc k), int (length (hyp (s + int (Suc k)))),
          if Suc k = 0 then p else int (length (hyp (s + int (Suc k) - 1))))"
    unfolding e by (cases k) simp_all
  finally show ?case .
qed

text \<open>
  C7, amended. Where some degree from 2 on has more than \<open>max_num_terms\<close> indices, let
  \<open>d0\<close> be the first such degree. The seed degree is \<open>d0 - 1\<close> if the count at \<open>d0\<close> is
  strictly farther from \<open>max_num_terms\<close> than the previous count (taken as 0 when
  \<open>d0 = 2\<close>), and \<open>d0\<close>, whose count exceeds \<open>max_num_terms\<close>, otherwise. With counts
  that do not decrease with the degree, a seed degree of at least 2 has a count as close to
  \<open>max_num_terms\<close> as that of any degree from 2 on.
\<close>

theorem seed_degree_choice:
  assumes "2 \<le> e" and "max_num_terms < num_terms_at hyp e"
  shows "\<exists>d0 prev. 2 \<le> d0 \<and> max_num_terms < num_terms_at hyp d0 \<and>
    (\<forall>d. 2 \<le> d \<and> d < d0 \<longrightarrow> num_terms_at hyp d \<le> max_num_terms) \<and>
    prev = (if d0 = 2 then 0 else num_terms_at hyp (d0 - 1)) \<and>
    seed_degree hyp max_num_terms =
      Some (if \<bar>num_terms_at hyp d0 - max_num_terms\<bar> > \<bar>prev - max_num_terms\<bar>
            then d0 - 1 else d0) \<and>
    ((\<forall>a b. a \<le> b \<longrightarrow> num_terms_at hyp a \<le> num_terms_at hyp b) \<longrightarrow>
     (\<forall>s d. seed_degree hyp max_num_terms = Some s \<and> 2 \<le> s \<and> 2 \<le> d \<longrightarrow>
        \<bar>num_terms_at hyp s - max_num_terms\<bar> \<le> \<bar>num_terms_at hyp d - max_num_terms\<bar>))"
proof -
  let ?c = "num_terms_at hyp"
  let ?P = "\<lambda>k. max_num_terms < ?c (2 + int k)"
  have "?P (nat (e - 2))" using assms by simp
  then have "\<exists>k. ?P k" ..
  then obtain k where k: "?P k" and least: "\<forall>j<k. \<not> ?P j"
    using exists_least_iff [of ?P] by blast
  let ?d0 = "2 + int k"
  let ?prev = "if ?d0 = 2 then 0 else ?c (?d0 - 1)"
  have below: "\<forall>d. 2 \<le> d \<and> d < ?d0 \<longrightarrow> ?c d \<le> max_num_terms"
  proof (intro allI impI)
    fix d :: int assume d: "2 \<le> d \<and> d < ?d0"
    then have "nat (d - 2) < k" by linarith
    with least have "\<not> ?P (nat (d - 2))" by blast
    with d show "?c d \<le> max_num_terms" by simp
  qed
  have loop: "seed_loop hyp max_num_terms 2 0 =
      Some (?d0, ?c ?d0, if k = 0 then 0 else ?c (?d0 - 1))"
    using seed_loop_first_exceeding [of max_num_terms hyp 2 k 0] k least
    by (simp add: num_terms_at_def not_less)
  have pk: "(if k = 0 then 0 else ?c (?d0 - 1)) = ?prev" by simp
  have seed: "seed_degree hyp max_num_terms =
      Some (if \<bar>?c ?d0 - max_num_terms\<bar> > \<bar>?prev - max_num_terms\<bar> then ?d0 - 1 else ?d0)"
    unfolding seed_degree_def seed_choice_def loop pk by simp
  have close: "(\<forall>a b. a \<le> b \<longrightarrow> ?c a \<le> ?c b) \<longrightarrow>
     (\<forall>s d. seed_degree hyp max_num_terms = Some s \<and> 2 \<le> s \<and> 2 \<le> d \<longrightarrow>
        \<bar>?c s - max_num_terms\<bar> \<le> \<bar>?c d - max_num_terms\<bar>)"
  proof (intro allI impI)
    fix s d :: int
    assume mono: "\<forall>a b. a \<le> b \<longrightarrow> ?c a \<le> ?c b"
      and sd: "seed_degree hyp max_num_terms = Some s \<and> 2 \<le> s \<and> 2 \<le> d"
    show "\<bar>?c s - max_num_terms\<bar> \<le> \<bar>?c d - max_num_terms\<bar>"
    proof (cases "\<bar>?c ?d0 - max_num_terms\<bar> > \<bar>?prev - max_num_terms\<bar>")
      case True
      with seed sd have s: "s = ?d0 - 1" by simp
      with sd have k0: "?d0 \<noteq> 2" by simp
      with True have far: "\<bar>?c ?d0 - max_num_terms\<bar> > \<bar>?c s - max_num_terms\<bar>"
        using s by simp
      have sle: "?c s \<le> max_num_terms" using below s sd by simp
      show ?thesis
      proof (cases "d < ?d0")
        case True
        then have "d \<le> s" using s by simp
        with mono have "?c d \<le> ?c s" by blast
        with sle show ?thesis by simp
      next
        case False
        then have "?d0 \<le> d" by simp
        with mono have "?c ?d0 \<le> ?c d" by blast
        with k far show ?thesis by simp
      qed
    next
      case False
      with seed sd have s: "s = ?d0" by simp
      show ?thesis
      proof (cases "d < ?d0")
        case True
        with sd have k0: "?d0 \<noteq> 2" by simp
        from True have "d \<le> ?d0 - 1" by simp
        with mono have dl: "?c d \<le> ?c (?d0 - 1)" by blast
        have "?c (?d0 - 1) \<le> max_num_terms" using below k0 by simp
        with dl False k0 show ?thesis unfolding s by simp
      next
        case False
        then have "?d0 \<le> d" by simp
        with mono have "?c ?d0 \<le> ?c d" by blast
        with k show ?thesis unfolding s by simp
      qed
    qed
  qed
  have "2 \<le> ?d0" by simp
  with k below seed close show ?thesis by blast
qed

theorem seed_degree_choice_witness:
  "(2::int) \<le> 4 \<and> 14 < num_terms_at (compute_hyperbolic_indices_1 2) 4 \<and>
   (\<exists>d0. num_terms_at (compute_hyperbolic_indices_1 2) d0 > 14 \<and>
      seed_degree (compute_hyperbolic_indices_1 2) 14 = Some 4)"
proof -
  have h1: "(2::int) \<le> 4" by simp
  have h2: "14 < num_terms_at (compute_hyperbolic_indices_1 2) 4"
    by code_simp
  from seed_degree_choice [OF h1 h2]
  obtain d0 where "14 < num_terms_at (compute_hyperbolic_indices_1 2) d0" by blast
  moreover have "seed_degree (compute_hyperbolic_indices_1 2) 14 = Some 4" by code_simp
  ultimately show ?thesis using h1 h2 by blast
qed

text \<open>
  C7 as stated fails for two variables, total degree and \<open>max_num_terms = 14\<close>: the
  counts at the degrees 3 and 4 are 10 and 15, degree 3 does not exceed 14, and the seed
  is degree 4.
\<close>

theorem seed_degree_exceeds_target:
  "seed_degree (compute_hyperbolic_indices_1 2) 14 = Some 4 \<and>
   num_terms_at (compute_hyperbolic_indices_1 2) 4 = 15 \<and>
   num_terms_at (compute_hyperbolic_indices_1 2) 3 = 10"
  by code_simp

section \<open>The expansion step of the search\<close>

text \<open>
  C3. One variable, \<open>pce.indices\<close> the indices \<open>(0), (1), (2)\<close> with the coefficients
  \<open>1, 1, 0\<close> of the last fit: the restriction is \<open>(0), (1)\<close>, whose expansion admits
  \<open>(2)\<close>, so the claim gives the working set \<open>(0), (1), (2)\<close>. The pass of the inner loop
  expands \<open>pce.indices\<close> itself and fits \<open>(0), (1), (2), (3)\<close>.
\<close>

theorem expansion_ignores_restriction:
  "restrict_basis [[0], [1], [2]] [1, 1, 0] (1/1000) = Inr [[0], [1]] \<and>
   expand_basis (\<lambda>i. i) 1 [[0], [1]] = [[2]] \<and>
   map_sum (\<lambda>e. e) pce_indices
     (inner_body (\<lambda>i. i) 1
        (\<lambda>idx. Inr (replicate (length idx) 1, Some 1, Some (Alpha 1))) (1/1000) 1
        \<lparr>pce_indices = [[0], [1], [2]], pce_coefficients = [1, 1, 0],
         num_terms = 4, best_coef = [1, 1, 0], best_cv_score = Some 2,
         best_indices = [[0], [1], [2]], best_reg_param = Some (Alpha 1),
         best_cv_score_iter = Some 2, best_iter = None,
         best_num_expansion_steps = 3, best_num_expansion_steps_iter = 3,
         iter = 0, best_it = 0\<rparr>) = Inr [[0], [1], [2], [3]]"
  by code_simp

section \<open>The constant index in the returned basis\<close>



















section \<open>When the degree sweep stops\<close>











section \<open>No search returns with the solver lars\<close>

lemma degree_loop_no_fit:
  "\<forall>idx. \<exists>e. fit idx = Inl e \<Longrightarrow> degree_loop hyp fit ds st = Inr st' \<Longrightarrow>
   cv_best_coef st' = cv_best_coef st"
proof (induction ds arbitrary: st)
  case Nil
  then show ?case by simp
next
  case (Cons d ds)
  from Cons.prems(1) obtain e where "fit (hyp d) = Inl e" by blast
  with Cons.prems(2) show ?case by (auto simp: Let_def split: if_splits)
qed

lemma cross_validate_no_fit:
  assumes "\<forall>idx. \<exists>e. fit idx = Inl e"
  shows "cross_validate_pce_degree_one hyp fit pidx pcoef train_vals min_degree max_degree \<noteq> Inr r"
proof
  assume a: "cross_validate_pce_degree_one hyp fit pidx pcoef train_vals min_degree max_degree = Inr r"
  let ?mn = "case min_degree of None \<Rightarrow> 2 | Some m \<Rightarrow> m"
  let ?mx = "case max_degree of None \<Rightarrow> 2 ^ 63 - 1 - 1 | Some m \<Rightarrow> m"
  from a obtain st where l: "degree_loop hyp fit [?mn..?mx] (degree_state_init pidx pcoef ?mn) = Inr st"
    and b: "cv_best_coef st \<noteq> None"
    by (auto simp: cross_validate_pce_degree_one_def Let_def simp del: upto_rec_numeral
        split: if_splits sum.splits option.splits)
  from degree_loop_no_fit [OF assms l] have "cv_best_coef st = None"
    by (simp add: degree_state_init_def)
  with b show False by simp
qed

lemma expanding_no_fit:
  assumes "\<forall>idx. \<exists>e. fit idx = Inl e"
  shows "expanding_basis_pce_one_qoi key num_vars hyp fit train_vals max_num_terms tol \<noteq>
    Some (Inr r)"
proof
  assume a: "expanding_basis_pce_one_qoi key num_vars hyp fit train_vals max_num_terms tol =
    Some (Inr r)"
  let ?m = "case max_num_terms of None \<Rightarrow> 10 * int (ncols train_vals) | Some m \<Rightarrow> m"
  from a have nc: "ncols train_vals = 1"
    by (auto simp: expanding_basis_pce_one_qoi_def split: if_splits)
  from a nc obtain degree nt where sc: "seed_choice hyp ?m = Some (degree, nt)"
    by (auto simp: expanding_basis_pce_one_qoi_def Let_def split: option.splits)
  from assms obtain e where "fit (hyp degree) = Inl e" by blast
  with a nc sc show False
    by (simp add: expanding_basis_pce_one_qoi_def Let_def)
qed

text \<open>
  C10. For the solver type \<open>lars\<close>, which is a key of the table \<open>solvers\<close>,
  \<open>fit_linear_model\<close> raises before any estimator is built, whatever the estimator,
  the matrices and the options; so neither the expanding-basis search nor the degree
  sweep returns a result when every fit is made with \<open>lars\<close>.
\<close>

theorem lars_never_fits:
  "map_of solvers ''lars'' \<noteq> None \<and>
   fit_linear_model estimator_fit basis_matrix train_vals ''lars'' kw =
     Inl (Exception lars_msg) \<and>
   expanding_basis_pce_one_qoi key num_vars hyp
     (\<lambda>idx. fit_linear_model estimator_fit (basis_matrix_of idx) train_vals ''lars'' kw)
     train_vals max_num_terms tol \<noteq> Some (Inr r) \<and>
   cross_validate_pce_degree_one hyp
     (\<lambda>idx. fit_linear_model estimator_fit (basis_matrix_of idx) train_vals ''lars'' kw)
     pidx pcoef train_vals min_degree max_degree \<noteq> Inr r'"
proof -
  have "\<forall>idx. \<exists>e.
      fit_linear_model estimator_fit (basis_matrix_of idx) train_vals ''lars'' kw = Inl e"
    by (simp add: fit_linear_model_lars)
  from expanding_no_fit [OF this] cross_validate_no_fit [OF this]
  show ?thesis by (simp add: fit_linear_model_lars map_of_solvers_lars)
qed

end
